theory Spec2Isabelle
  imports Main "HOL-Library.Code_Target_Nat"
begin

section \<open>The CSS selector builder of 05-objects-tasks.js\<close>

subsection \<open>Fragments, ranks and errors\<close>

text \<open>
  A fragment is the two-element array \<^verbatim>\<open>[tag, text]\<close> of the source: \<^verbatim>\<open>e[0]\<close> is the
  tag, \<^verbatim>\<open>e[1]\<close> the rendered text. The only tags the class \<^verbatim>\<open>SB\<close> ever writes are the
  six keys of the table \<^verbatim>\<open>p\<close>, so the tag is an enumeration:
  \<^verbatim>\<open>'element'\<close> is \<open>K_element\<close>, \<^verbatim>\<open>'id'\<close> is \<open>K_id\<close>, \<^verbatim>\<open>'class'\<close> is \<open>K_class\<close>,
  \<^verbatim>\<open>'attr'\<close> is \<open>K_attr\<close>, \<^verbatim>\<open>'pseudoClass'\<close> is \<open>K_pseudoClass\<close> and
  \<^verbatim>\<open>'pseudoElement'\<close> is \<open>K_pseudoElement\<close>.
\<close>

datatype kind = K_element | K_id | K_class | K_attr | K_pseudoClass | K_pseudoElement

type_synonym fragment = "kind \<times> string"

text \<open>The table \<^verbatim>\<open>const p = { element: 0, id: 1, class: 2, attr: 3, ... }\<close>.\<close>

fun p :: "kind \<Rightarrow> nat" where
  "p K_element = 0"
| "p K_id = 1"
| "p K_class = 2"
| "p K_attr = 3"
| "p K_pseudoClass = 4"
| "p K_pseudoElement = 5"

definition err1 :: string where
  "err1 = ''Selector parts should be arranged in the following order: element, id, class, attribute, pseudo-class, pseudo-element''"

definition err2 :: string where
  "err2 = ''Element, id and pseudo-element should not occur more then one time inside the selector''"

text \<open>
  \<^verbatim>\<open>throw new Error(msg)\<close>: the exception carries its message. \<open>SyntaxError\<close> and
  \<open>TypeError\<close> are the exceptions of the built-in functions that \<^verbatim>\<open>fromJSON\<close> calls.
\<close>

datatype exn = Error string | SyntaxError | TypeError

text \<open>
  Sequencing of calls that may throw: the first exception ends the chain, as it does in
  a JavaScript expression such as \<^verbatim>\<open>builder.id('a').class('b').stringify()\<close>.
\<close>

definition try_bind :: "exn + 'x \<Rightarrow> ('x \<Rightarrow> exn + 'y) \<Rightarrow> exn + 'y" where
  "try_bind m f = (case m of Inl e \<Rightarrow> Inl e | Inr v \<Rightarrow> f v)"

subsection \<open>The class SB\<close>

text \<open>An instance has the single field \<^verbatim>\<open>this.a\<close>, the array of fragments.\<close>

record SB =
  a :: "fragment list"

text \<open>
  The loop of the constructor,
  \<^verbatim>\<open>for (let i = 1; i < a.length; i += 1) if (p[a[i-1][0]] > p[a[i][0]]) throw new Error(err1)\<close>,
  started at \<open>i\<close>. It is only entered at \<open>i = 1\<close>, so \<open>i - 1\<close> never truncates.
\<close>

function SB_constructor_loop :: "fragment list \<Rightarrow> nat \<Rightarrow> exn + unit" where
  "SB_constructor_loop xs i =
     (if i < length xs then
        (if p (fst (xs ! (i - 1))) > p (fst (xs ! i)) then Inl (Error err1)
         else SB_constructor_loop xs (i + 1))
      else Inr ())"
  by pat_completeness auto
termination
  by (relation "measure (\<lambda>(xs, i). length xs - i)") auto

declare SB_constructor_loop.simps [simp del]

text \<open>\<^verbatim>\<open>constructor(a = [], validate = true)\<close> with both arguments given.\<close>

definition SB_constructor :: "fragment list \<Rightarrow> bool \<Rightarrow> exn + SB" where
  "SB_constructor xs validate =
     (if validate then
        (case SB_constructor_loop xs 1 of
           Inl e \<Rightarrow> Inl e
         | Inr _ \<Rightarrow> Inr \<lparr>a = xs\<rparr>)
      else Inr \<lparr>a = xs\<rparr>)"

definition SB_element :: "SB \<Rightarrow> string \<Rightarrow> exn + SB" where
  "SB_element this s =
     (if list_ex (\<lambda>e. fst e = K_element) (a this) then Inl (Error err2)
      else SB_constructor (a this @ [(K_element, s)]) True)"

definition SB_id :: "SB \<Rightarrow> string \<Rightarrow> exn + SB" where
  "SB_id this s =
     (if list_ex (\<lambda>e. fst e = K_id) (a this) then Inl (Error err2)
      else SB_constructor (a this @ [(K_id, ''#'' @ s)]) True)"

definition SB_class :: "SB \<Rightarrow> string \<Rightarrow> exn + SB" where
  "SB_class this s = SB_constructor (a this @ [(K_class, ''.'' @ s)]) True"

definition SB_attr :: "SB \<Rightarrow> string \<Rightarrow> exn + SB" where
  "SB_attr this s = SB_constructor (a this @ [(K_attr, ''['' @ s @ '']'')]) True"

definition SB_pseudoClass :: "SB \<Rightarrow> string \<Rightarrow> exn + SB" where
  "SB_pseudoClass this s = SB_constructor (a this @ [(K_pseudoClass, '':'' @ s)]) True"

definition SB_pseudoElement :: "SB \<Rightarrow> string \<Rightarrow> exn + SB" where
  "SB_pseudoElement this s =
     (if list_ex (\<lambda>e. fst e = K_pseudoElement) (a this) then Inl (Error err2)
      else SB_constructor (a this @ [(K_pseudoElement, ''::'' @ s)]) True)"

definition SB_combine :: "SB \<Rightarrow> SB \<Rightarrow> string \<Rightarrow> SB \<Rightarrow> exn + SB" where
  "SB_combine this s1 c s2 =
     SB_constructor (((a this @ a s1) @ [(K_element, '' '' @ c @ '' '')]) @ a s2) False"

text \<open>\<^verbatim>\<open>Array.prototype.join\<close> on an array of strings.\<close>

fun join :: "string \<Rightarrow> string list \<Rightarrow> string" where
  "join sep [] = []"
| "join sep [x] = x"
| "join sep (x # y # ys) = x @ sep @ join sep (y # ys)"

text \<open>\<^verbatim>\<open>return this.a.map((e) => e[1]).join('');\<close>\<close>

definition SB_stringify :: "SB \<Rightarrow> string" where
  "SB_stringify this = join [] (map snd (a this))"

text \<open>
  \<^verbatim>\<open>const cssSelectorBuilder = new SB()\<close>: the defaults are \<open>[]\<close> and \<open>true\<close>, and the
  loop does not run on the empty array (lemma \<open>cssSelectorBuilder_new\<close>).
\<close>

definition cssSelectorBuilder :: SB where
  "cssSelectorBuilder = \<lparr>a = []\<rparr>"

subsection \<open>The class SB over a store of arrays\<close>

text \<open>
  A JavaScript array is a mutable object that is held by reference, and two builders could
  share one. To say that a method leaves every existing array as it was, the methods are
  written a second time over an explicit store of arrays. An address is a position in the
  store; a builder holds the address of its array in the field \<^verbatim>\<open>a\<close>; an array literal
  and \<^verbatim>\<open>Array.prototype.concat\<close> each allocate a new array at the end of the store and
  return its address; \<^verbatim>\<open>some\<close> and the constructor's loop only read. The addresses a
  builder holds are addresses of allocated arrays (\<open>a_ref B < length st\<close>).
\<close>

type_synonym store = "fragment list list"

record SB_ref =
  a_ref :: nat

definition new_array :: "store \<Rightarrow> fragment list \<Rightarrow> nat \<times> store" where
  "new_array st xs = (length st, st @ [xs])"

definition array_concat :: "store \<Rightarrow> nat \<Rightarrow> nat \<Rightarrow> nat \<times> store" where
  "array_concat st r1 r2 = new_array st (st ! r1 @ st ! r2)"

text \<open>\<^verbatim>\<open>this.a = a\<close> stores the address it is given; the loop reads the array there.\<close>

definition SB_constructor_st :: "store \<Rightarrow> nat \<Rightarrow> bool \<Rightarrow> (exn + SB_ref) \<times> store" where
  "SB_constructor_st st r validate =
     (if validate then
        (case SB_constructor_loop (st ! r) 1 of
           Inl e \<Rightarrow> (Inl e, st)
         | Inr _ \<Rightarrow> (Inr \<lparr>a_ref = r\<rparr>, st))
      else (Inr \<lparr>a_ref = r\<rparr>, st))"

text \<open>
  \<^verbatim>\<open>new SB(this.a.concat([[tag, text]]))\<close>: the literal is allocated, then the
  concatenation, then the constructor runs.
\<close>

definition append_fragment_st :: "store \<Rightarrow> SB_ref \<Rightarrow> fragment \<Rightarrow> (exn + SB_ref) \<times> store" where
  "append_fragment_st st this e =
     (case new_array st [e] of (l, st1) \<Rightarrow>
      case array_concat st1 (a_ref this) l of (r, st2) \<Rightarrow>
      SB_constructor_st st2 r True)"

definition SB_element_st :: "store \<Rightarrow> SB_ref \<Rightarrow> string \<Rightarrow> (exn + SB_ref) \<times> store" where
  "SB_element_st st this s =
     (if list_ex (\<lambda>e. fst e = K_element) (st ! a_ref this) then (Inl (Error err2), st)
      else append_fragment_st st this (K_element, s))"

definition SB_id_st :: "store \<Rightarrow> SB_ref \<Rightarrow> string \<Rightarrow> (exn + SB_ref) \<times> store" where
  "SB_id_st st this s =
     (if list_ex (\<lambda>e. fst e = K_id) (st ! a_ref this) then (Inl (Error err2), st)
      else append_fragment_st st this (K_id, ''#'' @ s))"

definition SB_class_st :: "store \<Rightarrow> SB_ref \<Rightarrow> string \<Rightarrow> (exn + SB_ref) \<times> store" where
  "SB_class_st st this s = append_fragment_st st this (K_class, ''.'' @ s)"

definition SB_attr_st :: "store \<Rightarrow> SB_ref \<Rightarrow> string \<Rightarrow> (exn + SB_ref) \<times> store" where
  "SB_attr_st st this s = append_fragment_st st this (K_attr, ''['' @ s @ '']'')"

definition SB_pseudoClass_st :: "store \<Rightarrow> SB_ref \<Rightarrow> string \<Rightarrow> (exn + SB_ref) \<times> store" where
  "SB_pseudoClass_st st this s = append_fragment_st st this (K_pseudoClass, '':'' @ s)"

definition SB_pseudoElement_st :: "store \<Rightarrow> SB_ref \<Rightarrow> string \<Rightarrow> (exn + SB_ref) \<times> store" where
  "SB_pseudoElement_st st this s =
     (if list_ex (\<lambda>e. fst e = K_pseudoElement) (st ! a_ref this) then (Inl (Error err2), st)
      else append_fragment_st st this (K_pseudoElement, ''::'' @ s))"

text \<open>
  \<^verbatim>\<open>this.a.concat(s1.a).concat([['element', ` ${c} `]]).concat(s2.a)\<close>, evaluated from the
  left: the literal is allocated after the first concatenation.
\<close>

definition SB_combine_st ::
    "store \<Rightarrow> SB_ref \<Rightarrow> SB_ref \<Rightarrow> string \<Rightarrow> SB_ref \<Rightarrow> (exn + SB_ref) \<times> store" where
  "SB_combine_st st this s1 c s2 =
     (case array_concat st (a_ref this) (a_ref s1) of (r1, st1) \<Rightarrow>
      case new_array st1 [(K_element, '' '' @ c @ '' '')] of (l, st2) \<Rightarrow>
      case array_concat st2 r1 l of (r2, st3) \<Rightarrow>
      case array_concat st3 r2 (a_ref s2) of (r3, st4) \<Rightarrow>
      SB_constructor_st st4 r3 False)"

text \<open>
  \<^verbatim>\<open>return this.a.map((e) => e[1]).join('');\<close> over the store: \<^verbatim>\<open>map\<close> reads the
  receiver's array and allocates a new array, of strings; the arrays of strings are kept
  in a store of their own. \<^verbatim>\<open>join\<close> reads that array. The outcome is the string and the
  two stores.
\<close>

type_synonym text_store = "string list list"

definition array_map_text :: "store \<Rightarrow> text_store \<Rightarrow> nat \<Rightarrow> nat \<times> text_store" where
  "array_map_text st ts r = (length ts, ts @ [map snd (st ! r)])"

definition SB_stringify_st :: "store \<Rightarrow> text_store \<Rightarrow> SB_ref \<Rightarrow> string \<times> store \<times> text_store" where
  "SB_stringify_st st ts this =
     (case array_map_text st ts (a_ref this) of (t, ts') \<Rightarrow> (join [] (ts' ! t), st, ts'))"

text \<open>The builder that a reference denotes in a store.\<close>

definition SB_at :: "store \<Rightarrow> SB_ref \<Rightarrow> SB" where
  "SB_at st B = \<lparr>a = st ! a_ref B\<rparr>"

text \<open>
  What a call on the receiver \<open>B\<close> in the store \<open>st\<close> with the outcome \<open>out\<close> leaves as it
  was: the receiver's array, and with it every array that was in the store; a builder
  that is returned holds an array allocated by the call.
\<close>

definition receiver_unchanged :: "store \<Rightarrow> SB_ref \<Rightarrow> (exn + SB_ref) \<times> store \<Rightarrow> bool" where
  "receiver_unchanged st B out =
     (snd out ! a_ref B = st ! a_ref B
      \<and> take (length st) (snd out) = st
      \<and> (case fst out of
           Inl e \<Rightarrow> True
         | Inr B' \<Rightarrow> length st \<le> a_ref B' \<and> a_ref B' < length (snd out)))"

subsection \<open>Chains of fragment-adding calls\<close>

text \<open>
  A call of one of the six fragment-adding methods with its argument, and a chain
  \<^verbatim>\<open>b.m1(v1).m2(v2)...\<close> of such calls on a builder: the first call that throws ends
  the chain with its exception.
\<close>

datatype call =
  CallElement string
| CallId string
| CallClass string
| CallAttr string
| CallPseudoClass string
| CallPseudoElement string

fun apply_call :: "SB \<Rightarrow> call \<Rightarrow> exn + SB" where
  "apply_call this (CallElement s) = SB_element this s"
| "apply_call this (CallId s) = SB_id this s"
| "apply_call this (CallClass s) = SB_class this s"
| "apply_call this (CallAttr s) = SB_attr this s"
| "apply_call this (CallPseudoClass s) = SB_pseudoClass this s"
| "apply_call this (CallPseudoElement s) = SB_pseudoElement this s"

fun run :: "SB \<Rightarrow> call list \<Rightarrow> exn + SB" where
  "run this [] = Inr this"
| "run this (c # cs) = try_bind (apply_call this c) (\<lambda>b. run b cs)"

text \<open>
  The rendering of each call as the specification documents it: \<open>element(v)\<close> as \<open>v\<close>,
  \<open>id(v)\<close> as \<open>#v\<close>, \<open>class(v)\<close> as \<open>.v\<close>, \<open>attr(v)\<close> as \<open>[v]\<close>, \<open>pseudoClass(v)\<close>
  as \<open>:v\<close> and \<open>pseudoElement(v)\<close> as \<open>::v\<close>; and the kind of fragment it adds.
\<close>

fun spec_render :: "call \<Rightarrow> string" where
  "spec_render (CallElement v) = v"
| "spec_render (CallId v) = CHR ''#'' # v"
| "spec_render (CallClass v) = CHR ''.'' # v"
| "spec_render (CallAttr v) = CHR ''['' # v @ [CHR '']'']"
| "spec_render (CallPseudoClass v) = CHR '':'' # v"
| "spec_render (CallPseudoElement v) = CHR '':'' # CHR '':'' # v"

fun spec_kind :: "call \<Rightarrow> kind" where
  "spec_kind (CallElement v) = K_element"
| "spec_kind (CallId v) = K_id"
| "spec_kind (CallClass v) = K_class"
| "spec_kind (CallAttr v) = K_attr"
| "spec_kind (CallPseudoClass v) = K_pseudoClass"
| "spec_kind (CallPseudoElement v) = K_pseudoElement"

text \<open>The kinds that the methods \<open>element\<close>, \<open>id\<close> and \<open>pseudoElement\<close> look for before appending.\<close>

fun singleton_kind :: "kind \<Rightarrow> bool" where
  "singleton_kind K_element = True"
| "singleton_kind K_id = True"
| "singleton_kind K_pseudoElement = True"
| "singleton_kind _ = False"

text \<open>
  Some consecutive pair of fragments has the earlier kind's rank strictly greater than
  the later kind's rank.
\<close>

abbreviation out_of_order :: "fragment list \<Rightarrow> bool" where
  "out_of_order xs \<equiv> (\<exists>i. Suc i < length xs \<and> p (fst (xs ! i)) > p (fst (xs ! Suc i)))"

section \<open>Rectangle, getJSON and fromJSON\<close>

subsection \<open>Rectangle\<close>

text \<open>
  \<^verbatim>\<open>function Rectangle(width, height)\<close> sets the two fields and the method
  \<^verbatim>\<open>this.getArea = () => this.width * this.height\<close>, which reads the fields of the object
  when it is called. The type of the fields is a parameter: the function stores what it
  is given, and \<open>getArea\<close> multiplies with the multiplication of that type. An
  assignment \<^verbatim>\<open>r.width = v\<close> is the record update of \<open>width\<close>.
\<close>

record 'n Rectangle =
  width :: 'n
  height :: 'n

definition Rectangle :: "'n \<Rightarrow> 'n \<Rightarrow> 'n Rectangle" where
  "Rectangle w h = \<lparr>width = w, height = h\<rparr>"

definition getArea :: "('n::times) Rectangle \<Rightarrow> 'n" where
  "getArea this = width this * height this"

subsection \<open>JavaScript values\<close>

text \<open>
  A JavaScript number is a double. \<open>Whole n\<close> is the double whose value is the integer
  \<open>n\<close>, where \<open>Whole 0\<close> is the positive zero and \<open>NegZero\<close> the negative one; every integer
  of magnitude at most \<open>2^53 - 1\<close> is a double. \<open>Fractional m k\<close> is a finite double that is
  not an integer, \<open>m / 2^k\<close>.
\<close>

datatype number = NaN | PosInfinity | NegInfinity | NegZero | Whole int | Fractional int nat

text \<open>
  The values that \<^verbatim>\<open>getJSON\<close> and \<^verbatim>\<open>fromJSON\<close> pass around. A string is the list of its
  code units, which are below 256 here. An object is the list of its own enumerable
  properties in the order in which JavaScript enumerates them, and its prototype chain has
  no \<^verbatim>\<open>toJSON\<close>. \<open>JFun\<close> is a function, such as the method \<open>getArea\<close> of a rectangle.
\<close>

datatype jsval =
  JUndefined
| JNull
| JBool bool
| JNum number
| JStr string
| JArr "jsval list"
| JObj "(string \<times> jsval) list"
| JFun

text \<open>
  The outcome of a call of a function of the JavaScript library. The library is modelled
  on a part of its inputs: \<open>Unmodelled\<close> is the outcome on every other input, about which
  nothing is said.
\<close>

datatype 'v lib = Value 'v | Throws exn | Unmodelled

definition lib_bind :: "'v lib \<Rightarrow> ('v \<Rightarrow> 'w lib) \<Rightarrow> 'w lib" where
  "lib_bind m f = (case m of Value v \<Rightarrow> f v | Throws e \<Rightarrow> Throws e | Unmodelled \<Rightarrow> Unmodelled)"

text \<open>The integers whose doubles are exact: magnitude at most \<open>2^53 - 1\<close>.\<close>

definition safe_integer :: "int \<Rightarrow> bool" where
  "safe_integer n = (- 9007199254740991 \<le> n \<and> n \<le> 9007199254740991)"

definition is_digit :: "char \<Rightarrow> bool" where
  "is_digit ch = (ch \<in> set ''0123456789'')"

text \<open>
  The properties of an object that the model covers: the keys are distinct, none is written
  with digits alone (JavaScript enumerates array indices before the other keys), and
  \<^verbatim>\<open>toJSON\<close> is not a function.
\<close>

definition modelled_properties :: "(string \<times> jsval) list \<Rightarrow> bool" where
  "modelled_properties kvs =
     (distinct (map fst kvs)
      \<and> list_all (\<lambda>kv. \<not> list_all is_digit (fst kv)) kvs
      \<and> \<not> list_ex (\<lambda>kv. fst kv = ''toJSON'' \<and> snd kv = JFun) kvs)"

subsection \<open>JSON.stringify\<close>

text \<open>The decimal digits of a natural number.\<close>

fun decimal :: "nat \<Rightarrow> string" where
  "decimal n = (if n < 10 then [''0123456789'' ! n] else decimal (n div 10) @ [''0123456789'' ! (n mod 10)])"

declare decimal.simps [simp del]

definition signed_decimal :: "int \<Rightarrow> string" where
  "signed_decimal n = (if n < 0 then ''-'' @ decimal (nat (- n)) else decimal (nat n))"

text \<open>
  \<^verbatim>\<open>Number.prototype.toString\<close> in base ten. A safe integer is printed with its digits and
  its sign; the decimal form of the other finite doubles is not modelled.
\<close>

fun Number_toString :: "number \<Rightarrow> string lib" where
  "Number_toString NaN = Value ''NaN''"
| "Number_toString PosInfinity = Value ''Infinity''"
| "Number_toString NegInfinity = Value ''-Infinity''"
| "Number_toString NegZero = Value ''0''"
| "Number_toString (Whole n) = (if safe_integer n then Value (signed_decimal n) else Unmodelled)"
| "Number_toString (Fractional m k) = Unmodelled"

fun is_finite :: "number \<Rightarrow> bool" where
  "is_finite NaN = False"
| "is_finite PosInfinity = False"
| "is_finite NegInfinity = False"
| "is_finite x = True"

text \<open>
  The quoting of a string by \<^verbatim>\<open>JSON.stringify\<close>: the double quote and the backslash are
  escaped with a backslash, the control characters are written \<^verbatim>\<open>\b \t \n \f \r\<close> or
  \<^verbatim>\<open>\u00xx\<close>, every other code unit stands for itself.
\<close>

definition JSON_quote_char :: "char \<Rightarrow> string" where
  "JSON_quote_char ch =
     (if ch = CHR 0x22 then [CHR 0x5C, CHR 0x22]
      else if ch = CHR 0x5C then [CHR 0x5C, CHR 0x5C]
      else if ch = CHR 0x08 then [CHR 0x5C, CHR ''b'']
      else if ch = CHR 0x09 then [CHR 0x5C, CHR ''t'']
      else if ch = CHR 0x0A then [CHR 0x5C, CHR ''n'']
      else if ch = CHR 0x0C then [CHR 0x5C, CHR ''f'']
      else if ch = CHR 0x0D then [CHR 0x5C, CHR ''r'']
      else if (of_char ch :: nat) < 32 then
        [CHR 0x5C, CHR ''u'', CHR ''0'', CHR ''0'',
         ''0123456789abcdef'' ! (of_char ch div 16), ''0123456789abcdef'' ! (of_char ch mod 16)]
      else [ch])"

definition JSON_quote :: "string \<Rightarrow> string" where
  "JSON_quote s = [CHR 0x22] @ concat (map JSON_quote_char s) @ [CHR 0x22]"

text \<open>
  \<^verbatim>\<open>JSON.stringify(value)\<close> with one argument; the value \<open>None\<close> is the result
  \<^verbatim>\<open>undefined\<close>. A number that is not finite is written \<^verbatim>\<open>null\<close>. In an array
  \<^verbatim>\<open>undefined\<close> and functions are written \<^verbatim>\<open>null\<close>; in an object the properties that
  hold them are left out. An object whose \<^verbatim>\<open>toJSON\<close> is a function is serialised as
  that function decides, which is not modelled.
\<close>

fun JSON_stringify :: "jsval \<Rightarrow> string option lib"
  and JSON_stringify_elements :: "jsval list \<Rightarrow> string list lib"
  and JSON_stringify_properties :: "(string \<times> jsval) list \<Rightarrow> string list lib" where
  "JSON_stringify JUndefined = Value None"
| "JSON_stringify JFun = Value None"
| "JSON_stringify JNull = Value (Some ''null'')"
| "JSON_stringify (JBool b) = Value (Some (if b then ''true'' else ''false''))"
| "JSON_stringify (JNum x) =
     (if is_finite x then lib_bind (Number_toString x) (\<lambda>t. Value (Some t))
      else Value (Some ''null''))"
| "JSON_stringify (JStr s) = Value (Some (JSON_quote s))"
| "JSON_stringify (JArr xs) =
     lib_bind (JSON_stringify_elements xs) (\<lambda>ts. Value (Some (''['' @ join '','' ts @ '']'')))"
| "JSON_stringify (JObj kvs) =
     (if \<not> modelled_properties kvs then Unmodelled
      else lib_bind (JSON_stringify_properties kvs) (\<lambda>ts. Value (Some (''{'' @ join '','' ts @ ''}''))))"
| "JSON_stringify_elements [] = Value []"
| "JSON_stringify_elements (x # xs) =
     lib_bind (JSON_stringify x) (\<lambda>r.
     lib_bind (JSON_stringify_elements xs) (\<lambda>ts.
     Value ((case r of None \<Rightarrow> ''null'' | Some t \<Rightarrow> t) # ts)))"
| "JSON_stringify_properties [] = Value []"
| "JSON_stringify_properties (kv # kvs) =
     lib_bind (JSON_stringify (snd kv)) (\<lambda>r.
     lib_bind (JSON_stringify_properties kvs) (\<lambda>ts.
     Value (case r of None \<Rightarrow> ts | Some t \<Rightarrow> (JSON_quote (fst kv) @ '':'' @ t) # ts)))"

subsection \<open>JSON.parse\<close>

text \<open>
  The result of parsing a prefix of a text: the value and the rest of the text, a syntax
  error, or \<open>Outside\<close> when the text leaves the part of JSON that is modelled (a number
  with a fraction or an exponent or beyond the safe integers, a \<^verbatim>\<open>\u\<close> escape, an object
  whose keys are not covered).
\<close>

datatype 'v parsed = Parsed 'v string | Syntax | Outside

definition is_ws :: "char \<Rightarrow> bool" where
  "is_ws ch = (ch = CHR 0x20 \<or> ch = CHR 0x09 \<or> ch = CHR 0x0A \<or> ch = CHR 0x0D)"

definition skip_ws :: "string \<Rightarrow> string" where
  "skip_ws s = dropWhile is_ws s"

fun digits_value :: "nat \<Rightarrow> string \<Rightarrow> nat" where
  "digits_value acc [] = acc"
| "digits_value acc (ch # cs) = digits_value (10 * acc + (of_char ch - 48)) cs"

text \<open>
  A JSON number: an optional minus sign, then \<^verbatim>\<open>0\<close> or digits that do not start with
  \<^verbatim>\<open>0\<close>. A fraction or an exponent after them is not modelled.
\<close>

definition parse_unsigned :: "bool \<Rightarrow> string \<Rightarrow> jsval parsed" where
  "parse_unsigned negative s =
     (let ds = takeWhile is_digit s; r = dropWhile is_digit s in
      if ds = [] then Syntax
      else if 1 < length ds \<and> hd ds = CHR ''0'' then Syntax
      else if r \<noteq> [] \<and> hd r \<in> set ''.eE'' then Outside
      else if 9007199254740991 < digits_value 0 ds then Outside
      else if negative then
        Parsed (JNum (if digits_value 0 ds = 0 then NegZero else Whole (- int (digits_value 0 ds)))) r
      else Parsed (JNum (Whole (int (digits_value 0 ds)))) r)"

definition parse_number :: "string \<Rightarrow> jsval parsed" where
  "parse_number s =
     (case s of
        [] \<Rightarrow> Syntax
      | ch # cs \<Rightarrow> if ch = CHR ''-'' then parse_unsigned True cs else parse_unsigned False s)"


text \<open>
  The characters of a JSON string after its opening quote, up to the closing quote. A
  control character is a syntax error; the escapes of one letter are decoded.
\<close>

fun parse_string :: "string \<Rightarrow> string \<Rightarrow> string parsed" where
  "parse_string acc [] = Syntax"
| "parse_string acc [ch] =
     (if ch = CHR 0x22 then Parsed acc [] else Syntax)"
| "parse_string acc (ch # e # cs) =
     (if ch = CHR 0x22 then Parsed acc (e # cs)
      else if ch = CHR 0x5C then
        (if e = CHR 0x22 \<or> e = CHR 0x5C \<or> e = CHR ''/'' then parse_string (acc @ [e]) cs
         else if e = CHR ''b'' then parse_string (acc @ [CHR 0x08]) cs
         else if e = CHR ''f'' then parse_string (acc @ [CHR 0x0C]) cs
         else if e = CHR ''n'' then parse_string (acc @ [CHR 0x0A]) cs
         else if e = CHR ''r'' then parse_string (acc @ [CHR 0x0D]) cs
         else if e = CHR ''t'' then parse_string (acc @ [CHR 0x09]) cs
         else if e = CHR ''u'' then Outside
         else Syntax)
      else if (of_char ch :: nat) < 32 then Syntax
      else parse_string (acc @ [ch]) (e # cs))"

text \<open>
  A JSON value at the start of a text, after white space. The first argument bounds the
  number of nested calls; \<open>JSON_parse\<close> starts with more than a text of that length needs.
\<close>

fun parse_value :: "nat \<Rightarrow> string \<Rightarrow> jsval parsed"
  and parse_elements :: "nat \<Rightarrow> jsval list \<Rightarrow> string \<Rightarrow> jsval parsed"
  and parse_members :: "nat \<Rightarrow> (string \<times> jsval) list \<Rightarrow> string \<Rightarrow> jsval parsed" where
  "parse_value 0 s = Outside"
| "parse_value (Suc n) s =
     (case skip_ws s of
        [] \<Rightarrow> Syntax
      | ch # cs \<Rightarrow>
          if ch = CHR ''['' then
            (case skip_ws cs of
               [] \<Rightarrow> Syntax
             | d # r \<Rightarrow> if d = CHR '']'' then Parsed (JArr []) r else parse_elements n [] cs)
          else if ch = CHR ''{'' then
            (case skip_ws cs of
               [] \<Rightarrow> Syntax
             | d # r \<Rightarrow> if d = CHR ''}'' then Parsed (JObj []) r else parse_members n [] cs)
          else if ch = CHR 0x22 then
            (case parse_string [] cs of
               Parsed t r \<Rightarrow> Parsed (JStr t) r
             | Syntax \<Rightarrow> Syntax
             | Outside \<Rightarrow> Outside)
          else if take 4 (ch # cs) = ''null'' then Parsed JNull (drop 4 (ch # cs))
          else if take 4 (ch # cs) = ''true'' then Parsed (JBool True) (drop 4 (ch # cs))
          else if take 5 (ch # cs) = ''false'' then Parsed (JBool False) (drop 5 (ch # cs))
          else parse_number (ch # cs))"
| "parse_elements 0 acc s = Outside"
| "parse_elements (Suc n) acc s =
     (case parse_value n s of
        Parsed v r \<Rightarrow>
          (case skip_ws r of
             [] \<Rightarrow> Syntax
           | d # r' \<Rightarrow>
               if d = CHR '','' then parse_elements n (acc @ [v]) r'
               else if d = CHR '']'' then Parsed (JArr (acc @ [v])) r'
               else Syntax)
      | Syntax \<Rightarrow> Syntax
      | Outside \<Rightarrow> Outside)"
| "parse_members 0 acc s = Outside"
| "parse_members (Suc n) acc s =
     (case skip_ws s of
        [] \<Rightarrow> Syntax
      | q # ks \<Rightarrow>
          if q \<noteq> CHR 0x22 then Syntax
          else
            (case parse_string [] ks of
               Parsed k r \<Rightarrow>
                 (case skip_ws r of
                    [] \<Rightarrow> Syntax
                  | colon # vs \<Rightarrow>
                      if colon \<noteq> CHR '':'' then Syntax
                      else
                        (case parse_value n vs of
                           Parsed v r' \<Rightarrow>
                             (case skip_ws r' of
                                [] \<Rightarrow> Syntax
                              | d # r'' \<Rightarrow>
                                  if d = CHR '','' then parse_members n (acc @ [(k, v)]) r''
                                  else if d = CHR ''}'' then
                                    (if modelled_properties (acc @ [(k, v)])
                                     then Parsed (JObj (acc @ [(k, v)])) r''
                                     else Outside)
                                  else Syntax)
                         | Syntax \<Rightarrow> Syntax
                         | Outside \<Rightarrow> Outside))
             | Syntax \<Rightarrow> Syntax
             | Outside \<Rightarrow> Outside))"


subsection \<open>getJSON and fromJSON\<close>








section \<open>Properties\<close>

subsection \<open>The validating constructor\<close>

lemma cssSelectorBuilder_new: "SB_constructor [] True = Inr cssSelectorBuilder"
  by (simp add: SB_constructor_def SB_constructor_loop.simps cssSelectorBuilder_def)

lemma err1_neq_err2: "err1 \<noteq> err2"
  by (simp add: err1_def err2_def)

lemma SB_constructor_loop_char:
  "SB_constructor_loop xs i =
     (if (\<exists>j. i \<le> j \<and> j < length xs \<and> p (fst (xs ! (j - 1))) > p (fst (xs ! j)))
      then Inl (Error err1) else Inr ())"
proof (induction xs i rule: SB_constructor_loop.induct)
  case (1 xs i)
  show ?case
  proof (cases "i < length xs")
    case False
    then show ?thesis by (simp add: SB_constructor_loop.simps)
  next
    case inside: True
    show ?thesis
    proof (cases "p (fst (xs ! (i - 1))) > p (fst (xs ! i))")
      case True
      with inside have "\<exists>j. i \<le> j \<and> j < length xs \<and> p (fst (xs ! (j - 1))) > p (fst (xs ! j))"
        by blast
      with inside True show ?thesis by (simp add: SB_constructor_loop.simps)
    next
      case False
      have "(\<exists>j. i \<le> j \<and> j < length xs \<and> p (fst (xs ! (j - 1))) > p (fst (xs ! j)))
            \<longleftrightarrow> (\<exists>j. i + 1 \<le> j \<and> j < length xs \<and> p (fst (xs ! (j - 1))) > p (fst (xs ! j)))"
        (is "?L \<longleftrightarrow> ?R")
      proof
        assume ?L
        then obtain j where j: "i \<le> j" "j < length xs" "p (fst (xs ! (j - 1))) > p (fst (xs ! j))"
          by blast
        with False have "j \<noteq> i" by auto
        with j show ?R by (intro exI [of _ j]) simp
      next
        assume ?R
        then show ?L by (metis add_leD1)
      qed
      moreover have "SB_constructor_loop xs i = SB_constructor_loop xs (i + 1)"
        using inside False by (subst SB_constructor_loop.simps) simp
      ultimately show ?thesis using "1.IH" [OF inside False] by simp
    qed
  qed
qed

lemma SB_constructor_validated:
  "SB_constructor xs True =
     (if (\<exists>i. Suc i < length xs \<and> p (fst (xs ! i)) > p (fst (xs ! Suc i)))
      then Inl (Error err1) else Inr \<lparr>a = xs\<rparr>)"
proof -
  have "(\<exists>j. 1 \<le> j \<and> j < length xs \<and> p (fst (xs ! (j - 1))) > p (fst (xs ! j)))
        \<longleftrightarrow> (\<exists>i. Suc i < length xs \<and> p (fst (xs ! i)) > p (fst (xs ! Suc i)))"
    (is "?L \<longleftrightarrow> ?R")
  proof
    assume ?L
    then obtain j where j: "1 \<le> j" "j < length xs" "p (fst (xs ! (j - 1))) > p (fst (xs ! j))"
      by blast
    then have "Suc (j - 1) = j" by simp
    with j show ?R by (intro exI [of _ "j - 1"]) simp
  next
    assume ?R
    then obtain i where "Suc i < length xs" "p (fst (xs ! i)) > p (fst (xs ! Suc i))"
      by blast
    then show ?L by (intro exI [of _ "Suc i"]) simp
  qed
  then show ?thesis
    by (simp add: SB_constructor_def SB_constructor_loop_char)
qed

lemma misordered_iff_not_sorted:
  "(\<exists>i. Suc i < length xs \<and> p (fst (xs ! i)) > p (fst (xs ! Suc i)))
   \<longleftrightarrow> \<not> sorted (map (\<lambda>e. p (fst e)) xs)"
  by (auto simp add: sorted_iff_nth_Suc not_le)

lemma SB_constructor_sorted:
  "SB_constructor xs True =
     (if sorted (map (\<lambda>e. p (fst e)) xs) then Inr \<lparr>a = xs\<rparr> else Inl (Error err1))"
  by (simp add: SB_constructor_validated misordered_iff_not_sorted)

lemma join_empty_separator: "join [] xs = concat xs"
  by (induction "[] :: string" xs rule: join.induct) simp_all

lemma SB_stringify_concat: "SB_stringify this = concat (map snd (a this))"
  by (simp add: SB_stringify_def join_empty_separator)

lemma SB_constructor_unvalidated: "SB_constructor xs False = Inr \<lparr>a = xs\<rparr>"
  by (simp add: SB_constructor_def)

subsection \<open>combine\<close>

lemma SB_combine_frags:
  "SB_combine this s1 c s2 = Inr \<lparr>a = a this @ a s1 @ [(K_element, '' '' @ c @ '' '')] @ a s2\<rparr>"
  by (simp add: SB_combine_def SB_constructor_unvalidated)

subsection \<open>The fragment-adding methods\<close>

lemma SB_element_result:
  "SB_element B s =
     (if list_ex (\<lambda>e. fst e = K_element) (a B) then Inl (Error err2)
      else if out_of_order (a B @ [(K_element, s)]) then Inl (Error err1)
      else Inr \<lparr>a = a B @ [(K_element, s)]\<rparr>)"
  by (simp only: SB_element_def SB_constructor_validated)

lemma SB_id_result:
  "SB_id B s =
     (if list_ex (\<lambda>e. fst e = K_id) (a B) then Inl (Error err2)
      else if out_of_order (a B @ [(K_id, ''#'' @ s)]) then Inl (Error err1)
      else Inr \<lparr>a = a B @ [(K_id, ''#'' @ s)]\<rparr>)"
  by (simp only: SB_id_def SB_constructor_validated)

lemma SB_class_result:
  "SB_class B s =
     (if out_of_order (a B @ [(K_class, ''.'' @ s)]) then Inl (Error err1)
      else Inr \<lparr>a = a B @ [(K_class, ''.'' @ s)]\<rparr>)"
  by (simp only: SB_class_def SB_constructor_validated)

lemma SB_attr_result:
  "SB_attr B s =
     (if out_of_order (a B @ [(K_attr, ''['' @ s @ '']'')]) then Inl (Error err1)
      else Inr \<lparr>a = a B @ [(K_attr, ''['' @ s @ '']'')]\<rparr>)"
  by (simp only: SB_attr_def SB_constructor_validated)

lemma SB_pseudoClass_result:
  "SB_pseudoClass B s =
     (if out_of_order (a B @ [(K_pseudoClass, '':'' @ s)]) then Inl (Error err1)
      else Inr \<lparr>a = a B @ [(K_pseudoClass, '':'' @ s)]\<rparr>)"
  by (simp only: SB_pseudoClass_def SB_constructor_validated)

lemma SB_pseudoElement_result:
  "SB_pseudoElement B s =
     (if list_ex (\<lambda>e. fst e = K_pseudoElement) (a B) then Inl (Error err2)
      else if out_of_order (a B @ [(K_pseudoElement, ''::'' @ s)]) then Inl (Error err1)
      else Inr \<lparr>a = a B @ [(K_pseudoElement, ''::'' @ s)]\<rparr>)"
  by (simp only: SB_pseudoElement_def SB_constructor_validated)

lemma apply_call_result:
  "apply_call B c =
     (if singleton_kind (spec_kind c) \<and> list_ex (\<lambda>e. fst e = spec_kind c) (a B)
      then Inl (Error err2)
      else SB_constructor (a B @ [(spec_kind c, spec_render c)]) True)"
  by (cases c)
    (simp_all add: SB_element_def SB_id_def SB_class_def SB_attr_def SB_pseudoClass_def
      SB_pseudoElement_def)

lemma apply_call_Inr:
  assumes "apply_call B c = Inr B'"
  shows "a B' = a B @ [(spec_kind c, spec_render c)]"
    and "sorted (map (\<lambda>e. p (fst e)) (a B'))"
  using assms unfolding apply_call_result SB_constructor_sorted
  by (auto split: if_splits)

lemma run_sorted:
  "run B cs = Inr B' \<Longrightarrow> sorted (map (\<lambda>e. p (fst e)) (a B)) \<Longrightarrow>
   sorted (map (\<lambda>e. p (fst e)) (a B'))"
proof (induction cs arbitrary: B)
  case Nil
  then show ?case by simp
next
  case (Cons c cs)
  from Cons.prems(1) obtain B1 where step: "apply_call B c = Inr B1" and rest: "run B1 cs = Inr B'"
    by (auto simp: try_bind_def split: sum.splits)
  from apply_call_Inr(2) [OF step] Cons.IH [OF rest] show ?case by blast
qed

lemma run_frags:
  "run B cs = Inr B' \<Longrightarrow> a B' = a B @ map (\<lambda>c. (spec_kind c, spec_render c)) cs"
proof (induction cs arbitrary: B)
  case Nil
  then show ?case by simp
next
  case (Cons c cs)
  from Cons.prems obtain B1 where step: "apply_call B c = Inr B1" and rest: "run B1 cs = Inr B'"
    by (auto simp: try_bind_def split: sum.splits)
  from apply_call_Inr(1) [OF step] Cons.IH [OF rest] show ?case by simp
qed

subsection \<open>When a method throws the ordering error\<close>

lemma SB_constructor_err1_iff:
  "(SB_constructor xs True = Inl (Error err1)) = out_of_order xs"
  by (simp add: SB_constructor_validated)

lemma SB_constructor_ok_iff:
  "(SB_constructor xs True = Inr \<lparr>a = xs\<rparr>) = (\<not> out_of_order xs)"
  by (simp add: SB_constructor_validated)

lemma SB_class_err1_iff:
  "(SB_class B s = Inl (Error err1)) = out_of_order (a B @ [(K_class, ''.'' @ s)])"
  unfolding SB_class_def by (rule SB_constructor_err1_iff)

lemma SB_attr_err1_iff:
  "(SB_attr B s = Inl (Error err1)) = out_of_order (a B @ [(K_attr, ''['' @ s @ '']'')])"
  unfolding SB_attr_def by (rule SB_constructor_err1_iff)

lemma SB_pseudoClass_err1_iff:
  "(SB_pseudoClass B s = Inl (Error err1)) = out_of_order (a B @ [(K_pseudoClass, '':'' @ s)])"
  unfolding SB_pseudoClass_def by (rule SB_constructor_err1_iff)

lemma guarded_err1_iff:
  "((if d then Inl (Error err2) else SB_constructor xs True) = Inl (Error err1))
   = (\<not> d \<and> out_of_order xs)"
  using err1_neq_err2 by (cases d) (simp_all add: SB_constructor_err1_iff)

lemma SB_element_err1_iff:
  "(SB_element B s = Inl (Error err1)) =
     (\<not> list_ex (\<lambda>e. fst e = K_element) (a B) \<and> out_of_order (a B @ [(K_element, s)]))"
  unfolding SB_element_def by (rule guarded_err1_iff)

lemma SB_id_err1_iff:
  "(SB_id B s = Inl (Error err1)) =
     (\<not> list_ex (\<lambda>e. fst e = K_id) (a B) \<and> out_of_order (a B @ [(K_id, ''#'' @ s)]))"
  unfolding SB_id_def by (rule guarded_err1_iff)

lemma SB_pseudoElement_err1_iff:
  "(SB_pseudoElement B s = Inl (Error err1)) =
     (\<not> list_ex (\<lambda>e. fst e = K_pseudoElement) (a B)
      \<and> out_of_order (a B @ [(K_pseudoElement, ''::'' @ s)]))"
  unfolding SB_pseudoElement_def by (rule guarded_err1_iff)

subsection \<open>The duplicate error and the string of a builder\<close>

lemma guarded_err2_iff:
  "((if d then Inl (Error err2) else SB_constructor xs True) = Inl (Error err2)) = d"
  using err1_neq_err2 by (cases d) (simp_all add: SB_constructor_validated)

lemma apply_call_stringify:
  "apply_call B c = Inr B' \<Longrightarrow> SB_stringify B' = SB_stringify B @ spec_render c"
  by (simp add: SB_stringify_concat apply_call_Inr(1))

lemma run_stringify:
  "run B cs = Inr B' \<Longrightarrow> SB_stringify B' = SB_stringify B @ concat (map spec_render cs)"
  by (simp add: SB_stringify_concat run_frags comp_def)

lemma SB_combine_stringify:
  "SB_combine this s1 c s2 = Inr C \<Longrightarrow>
   SB_stringify C = SB_stringify this @ SB_stringify s1 @ '' '' @ c @ '' '' @ SB_stringify s2"
  by (auto simp add: SB_combine_frags SB_stringify_concat)

lemma apply_call_err1_iff:
  "(apply_call B k = Inl (Error err1)) =
     (\<not> (singleton_kind (spec_kind k) \<and> list_ex (\<lambda>e. fst e = spec_kind k) (a B))
      \<and> out_of_order (a B @ [(spec_kind k, spec_render k)]))"
  unfolding apply_call_result by (rule guarded_err1_iff)

subsection \<open>The methods over the store\<close>

lemma SB_constructor_st_store: "snd (SB_constructor_st st r v) = st"
  by (simp add: SB_constructor_st_def split: sum.split)

lemma SB_constructor_st_result:
  "fst (SB_constructor_st st r v) = map_sum id (\<lambda>B. \<lparr>a_ref = r\<rparr>) (SB_constructor (st ! r) v)"
  by (simp add: SB_constructor_st_def SB_constructor_def split: sum.split)

lemma append_fragment_st_eq:
  "a_ref B < length st \<Longrightarrow>
   append_fragment_st st B e =
     (map_sum id (\<lambda>B'. \<lparr>a_ref = Suc (length st)\<rparr>) (SB_constructor (st ! a_ref B @ [e]) True),
      st @ [[e], st ! a_ref B @ [e]])"
  by (simp add: append_fragment_st_def new_array_def array_concat_def prod_eq_iff
      SB_constructor_st_store SB_constructor_st_result nth_append)

lemma append_fragment_st_grows:
  "\<exists>zs. snd (append_fragment_st st B e) = st @ zs \<and> length zs = 2"
  by (simp add: append_fragment_st_def new_array_def array_concat_def SB_constructor_st_store)

lemma append_fragment_st_fresh:
  "fst (append_fragment_st st B e) = Inr B' \<Longrightarrow> a_ref B' = Suc (length st)"
  by (auto simp add: append_fragment_st_def new_array_def array_concat_def SB_constructor_st_def
      split: sum.splits)

lemma receiver_unchanged_append_fragment:
  "a_ref B < length st \<Longrightarrow> receiver_unchanged st B (append_fragment_st st B e)"
  using append_fragment_st_grows [of st B e] append_fragment_st_fresh [of st B e]
  by (auto simp add: receiver_unchanged_def nth_append split: sum.split)

lemma receiver_unchanged_same: "receiver_unchanged st B (Inl e, st)"
  by (simp add: receiver_unchanged_def)

lemma SB_combine_st_grows:
  "\<exists>zs. SB_combine_st st B s1 c s2 = (Inr \<lparr>a_ref = length st + 3\<rparr>, st @ zs) \<and> length zs = 4"
  by (simp add: SB_combine_st_def new_array_def array_concat_def SB_constructor_st_def)

lemma receiver_unchanged_combine:
  "a_ref B < length st \<Longrightarrow> receiver_unchanged st B (SB_combine_st st B s1 c s2)"
  using SB_combine_st_grows [of st B s1 c s2]
  by (auto simp add: receiver_unchanged_def nth_append)

lemma SB_combine_st_abs:
  assumes "a_ref B < length st" "a_ref s1 < length st" "a_ref s2 < length st"
  shows "map_sum id (SB_at (snd (SB_combine_st st B s1 c s2))) (fst (SB_combine_st st B s1 c s2))
         = SB_combine (SB_at st B) (SB_at st s1) c (SB_at st s2)"
  using assms
  by (simp add: SB_combine_st_def new_array_def array_concat_def SB_constructor_st_def
      SB_combine_frags SB_at_def nth_append)

lemma append_fragment_st_abs:
  assumes "a_ref B < length st"
  shows "map_sum id (SB_at (snd (append_fragment_st st B e))) (fst (append_fragment_st st B e))
         = SB_constructor (a (SB_at st B) @ [e]) True"
  using assms
  by (simp add: append_fragment_st_eq SB_at_def SB_constructor_sorted nth_append)

lemma guarded_st_unchanged:
  "a_ref B < length st \<Longrightarrow>
   receiver_unchanged st B (if d then (Inl (Error err2), st) else append_fragment_st st B e)"
  by (simp add: receiver_unchanged_same receiver_unchanged_append_fragment)

lemma guarded_st_abs:
  "a_ref B < length st \<Longrightarrow>
   map_sum id (SB_at (snd (if d then (Inl (Error err2), st) else append_fragment_st st B e)))
     (fst (if d then (Inl (Error err2), st) else append_fragment_st st B e))
   = (if d then Inl (Error err2) else SB_constructor (a (SB_at st B) @ [e]) True)"
  by (simp add: append_fragment_st_abs)

lemma SB_at_a: "a (SB_at st B) = st ! a_ref B"
  by (simp add: SB_at_def)

text \<open>On allocated addresses the methods over the store compute what the methods on values do.\<close>

lemma SB_methods_st_abs:
  assumes "a_ref B < length st"
  shows "map_sum id (SB_at (snd (SB_element_st st B s))) (fst (SB_element_st st B s))
           = SB_element (SB_at st B) s"
    and "map_sum id (SB_at (snd (SB_id_st st B s))) (fst (SB_id_st st B s))
           = SB_id (SB_at st B) s"
    and "map_sum id (SB_at (snd (SB_class_st st B s))) (fst (SB_class_st st B s))
           = SB_class (SB_at st B) s"
    and "map_sum id (SB_at (snd (SB_attr_st st B s))) (fst (SB_attr_st st B s))
           = SB_attr (SB_at st B) s"
    and "map_sum id (SB_at (snd (SB_pseudoClass_st st B s))) (fst (SB_pseudoClass_st st B s))
           = SB_pseudoClass (SB_at st B) s"
    and "map_sum id (SB_at (snd (SB_pseudoElement_st st B s))) (fst (SB_pseudoElement_st st B s))
           = SB_pseudoElement (SB_at st B) s"
  unfolding SB_element_st_def SB_id_st_def SB_class_st_def SB_attr_st_def SB_pseudoClass_st_def
    SB_pseudoElement_st_def SB_element_def SB_id_def SB_class_def SB_attr_def SB_pseudoClass_def
    SB_pseudoElement_def
  by (simp_all only: guarded_st_abs [OF assms] append_fragment_st_abs [OF assms] SB_at_a)

lemma guarded_st_err2_iff:
  "((if d then (Inl (Error err2), st) else append_fragment_st st B e) = (Inl (Error err2), st)) = d"
  using append_fragment_st_grows [of st B e]
  by (cases d) (auto simp add: prod_eq_iff)

subsection \<open>stringify over the store, and the methods on the empty builder\<close>

lemma SB_stringify_st_result:
  "SB_stringify_st st ts B = (SB_stringify (SB_at st B), st, ts @ [map snd (st ! a_ref B)])"
  by (simp add: SB_stringify_st_def array_map_text_def SB_stringify_def SB_at_def)

lemma receiver_unchanged_stringify:
  "receiver_unchanged st B out \<Longrightarrow>
   fst (SB_stringify_st (snd out) ts B) = fst (SB_stringify_st st ts B)"
  by (simp add: SB_stringify_st_result receiver_unchanged_def SB_at_def)

lemma method_on_empty:
  "SB_element cssSelectorBuilder v = Inr \<lparr>a = [(K_element, v)]\<rparr>"
  "SB_id cssSelectorBuilder v = Inr \<lparr>a = [(K_id, ''#'' @ v)]\<rparr>"
  "SB_class cssSelectorBuilder v = Inr \<lparr>a = [(K_class, ''.'' @ v)]\<rparr>"
  "SB_attr cssSelectorBuilder v = Inr \<lparr>a = [(K_attr, ''['' @ v @ '']'')]\<rparr>"
  "SB_pseudoClass cssSelectorBuilder v = Inr \<lparr>a = [(K_pseudoClass, '':'' @ v)]\<rparr>"
  "SB_pseudoElement cssSelectorBuilder v = Inr \<lparr>a = [(K_pseudoElement, ''::'' @ v)]\<rparr>"
  by (simp_all add: SB_element_def SB_id_def SB_class_def SB_attr_def SB_pseudoClass_def
      SB_pseudoElement_def SB_constructor_sorted cssSelectorBuilder_def)

lemma apply_call_outcome:
  "apply_call B k =
     (if singleton_kind (spec_kind k) \<and> list_ex (\<lambda>e. fst e = spec_kind k) (a B)
      then Inl (Error err2)
      else if out_of_order (a B @ [(spec_kind k, spec_render k)]) then Inl (Error err1)
      else Inr \<lparr>a = a B @ [(spec_kind k, spec_render k)]\<rparr>)"
  by (simp only: apply_call_result SB_constructor_validated)

subsection \<open>The digits of a number\<close>














lemma Number_toString_safe:
  "safe_integer n \<Longrightarrow> Number_toString (Whole n) = Value (signed_decimal n)"
  by simp









subsection \<open>Parsing with enough fuel\<close>










section \<open>The claims\<close>

text \<open>
  Claim C1, as amended. \<open>combine\<close> starts from the receiver's own array
  (\<^verbatim>\<open>this.a.concat(s1.a)\<close>): for every receiver and all builders \<open>s1\<close>, \<open>s2\<close> and every
  token \<open>c\<close> it succeeds, without validation of the order of kinds, with a builder whose
  fragments are the receiver's fragments, then those of \<open>s1\<close>, then one fragment of
  kind element with the text \<open>c\<close> between two spaces, then those of \<open>s2\<close>. Called on the
  empty builder \<open>cssSelectorBuilder\<close> the result is the fragments of \<open>s1\<close>, the
  combinator fragment and the fragments of \<open>s2\<close>, and
  \<^verbatim>\<open>combine(element('div'), '+', element('span')).stringify()\<close> is \<^verbatim>\<open>'div + span'\<close>.
\<close>

theorem combine_appends_to_receiver:
  "SB_combine this s1 c s2 = Inr \<lparr>a = a this @ a s1 @ [(K_element, '' '' @ c @ '' '')] @ a s2\<rparr>
   \<and> SB_combine cssSelectorBuilder s1 c s2 = Inr \<lparr>a = a s1 @ [(K_element, '' '' @ c @ '' '')] @ a s2\<rparr>
   \<and> try_bind (SB_element cssSelectorBuilder ''div'') (\<lambda>L.
       try_bind (SB_element cssSelectorBuilder ''span'') (\<lambda>R.
       try_bind (SB_combine cssSelectorBuilder L ''+'' R) (\<lambda>C.
       Inr (SB_stringify C)))) = Inr ''div + span''"
proof (intro conjI)
  show "SB_combine this s1 c s2 = Inr \<lparr>a = a this @ a s1 @ [(K_element, '' '' @ c @ '' '')] @ a s2\<rparr>"
    by (rule SB_combine_frags)
  show "SB_combine cssSelectorBuilder s1 c s2 = Inr \<lparr>a = a s1 @ [(K_element, '' '' @ c @ '' '')] @ a s2\<rparr>"
    by (simp add: SB_combine_frags cssSelectorBuilder_def)
  show "try_bind (SB_element cssSelectorBuilder ''div'') (\<lambda>L.
       try_bind (SB_element cssSelectorBuilder ''span'') (\<lambda>R.
       try_bind (SB_combine cssSelectorBuilder L ''+'' R) (\<lambda>C.
       Inr (SB_stringify C)))) = Inr ''div + span''"
    by (simp add: SB_element_def SB_constructor_sorted SB_combine_frags cssSelectorBuilder_def
        try_bind_def SB_stringify_concat)
qed

text \<open>
  Claim C1 as it is written fails for a receiver that has fragments: on the builder that
  \<^verbatim>\<open>element('x')\<close> returns, \<^verbatim>\<open>combine(element('div'), '+', element('span'))\<close> is not the
  builder of \<open>div\<close>, \<open> + \<close> and \<open>span\<close> alone (it starts with the receiver's \<open>x\<close>).
\<close>

theorem combine_ignores_receiver_counterexample:
  "SB_element cssSelectorBuilder ''x'' = Inr \<lparr>a = [(K_element, ''x'')]\<rparr>
   \<and> SB_combine \<lparr>a = [(K_element, ''x'')]\<rparr> \<lparr>a = [(K_element, ''div'')]\<rparr> ''+'' \<lparr>a = [(K_element, ''span'')]\<rparr>
     = Inr \<lparr>a = [(K_element, ''x''), (K_element, ''div''), (K_element, '' + ''), (K_element, ''span'')]\<rparr>
   \<and> SB_combine \<lparr>a = [(K_element, ''x'')]\<rparr> \<lparr>a = [(K_element, ''div'')]\<rparr> ''+'' \<lparr>a = [(K_element, ''span'')]\<rparr>
     \<noteq> Inr \<lparr>a = a \<lparr>a = [(K_element, ''div'')]\<rparr> @ [(K_element, '' + '')] @ a \<lparr>a = [(K_element, ''span'')]\<rparr>\<rparr>
   \<and> SB_stringify \<lparr>a = [(K_element, ''x''), (K_element, ''div''), (K_element, '' + ''), (K_element, ''span'')]\<rparr>
     = ''xdiv + span''"
  by (simp add: SB_combine_frags SB_element_def SB_constructor_sorted cssSelectorBuilder_def
      SB_stringify_concat)

text \<open>
  Claim C2. Every builder that a chain of the six fragment-adding methods, started on
  the empty builder \<open>cssSelectorBuilder\<close>, returns has the kinds of its fragments in
  non-decreasing order of the ranks \<open>p\<close>: element 0, id 1, class 2, attr 3, pseudoClass 4,
  pseudoElement 5.
\<close>

theorem chain_kinds_sorted:
  "run cssSelectorBuilder cs = Inr B \<Longrightarrow> sorted (map (\<lambda>e. p (fst e)) (a B))"
  by (erule run_sorted) (simp add: cssSelectorBuilder_def)

theorem chain_kinds_sorted_witness:
  "run cssSelectorBuilder [CallElement ''div'', CallId ''main'', CallClass ''c'', CallClass ''d'',
       CallAttr ''x'', CallPseudoClass ''hover'', CallPseudoElement ''after'']
     = Inr \<lparr>a = [(K_element, ''div''), (K_id, ''#main''), (K_class, ''.c''), (K_class, ''.d''),
       (K_attr, ''[x]''), (K_pseudoClass, '':hover''), (K_pseudoElement, ''::after'')]\<rparr>
   \<and> sorted (map (\<lambda>e. p (fst e)) [(K_element, ''div''), (K_id, ''#main''), (K_class, ''.c''),
       (K_class, ''.d''), (K_attr, ''[x]''), (K_pseudoClass, '':hover''), (K_pseudoElement, ''::after'')])"
proof -
  have r: "run cssSelectorBuilder [CallElement ''div'', CallId ''main'', CallClass ''c'', CallClass ''d'',
       CallAttr ''x'', CallPseudoClass ''hover'', CallPseudoElement ''after'']
     = Inr \<lparr>a = [(K_element, ''div''), (K_id, ''#main''), (K_class, ''.c''), (K_class, ''.d''),
       (K_attr, ''[x]''), (K_pseudoClass, '':hover''), (K_pseudoElement, ''::after'')]\<rparr>"
    by (simp add: apply_call_result SB_constructor_sorted cssSelectorBuilder_def try_bind_def)
  from chain_kinds_sorted [OF r] r show ?thesis by simp
qed

text \<open>
  Claim C3. The constructor with validation, which every method except \<open>combine\<close> calls
  on the receiver's fragments followed by the new one, throws the ordering error (message
  \<open>err1\<close>) if and only if some consecutive pair of the sequence has the earlier kind's
  rank strictly greater than the later kind's, and returns the builder of that sequence
  otherwise. So \<open>class\<close>, \<open>attr\<close> and \<open>pseudoClass\<close> throw the ordering error exactly when
  the sequence they build has such a pair, and \<open>element\<close>, \<open>id\<close> and \<open>pseudoElement\<close>,
  which construct a builder only when the receiver has no fragment of that kind yet,
  throw it exactly when they reach the constructor and the sequence has such a pair.
  \<^verbatim>\<open>class('b').id('a')\<close> throws the ordering error.
\<close>

theorem ordering_error_iff_out_of_order:
  "(SB_constructor xs True = Inl (Error err1)) = out_of_order xs
   \<and> (SB_constructor xs True = Inr \<lparr>a = xs\<rparr>) = (\<not> out_of_order xs)
   \<and> (SB_class B s = Inl (Error err1)) = out_of_order (a B @ [(K_class, ''.'' @ s)])
   \<and> (SB_attr B s = Inl (Error err1)) = out_of_order (a B @ [(K_attr, ''['' @ s @ '']'')])
   \<and> (SB_pseudoClass B s = Inl (Error err1)) = out_of_order (a B @ [(K_pseudoClass, '':'' @ s)])
   \<and> (SB_element B s = Inl (Error err1)) =
       (\<not> list_ex (\<lambda>e. fst e = K_element) (a B) \<and> out_of_order (a B @ [(K_element, s)]))
   \<and> (SB_id B s = Inl (Error err1)) =
       (\<not> list_ex (\<lambda>e. fst e = K_id) (a B) \<and> out_of_order (a B @ [(K_id, ''#'' @ s)]))
   \<and> (SB_pseudoElement B s = Inl (Error err1)) =
       (\<not> list_ex (\<lambda>e. fst e = K_pseudoElement) (a B)
        \<and> out_of_order (a B @ [(K_pseudoElement, ''::'' @ s)]))
   \<and> try_bind (SB_class cssSelectorBuilder ''b'') (\<lambda>b. SB_id b ''a'') = Inl (Error err1)"
proof (intro conjI)
  show "try_bind (SB_class cssSelectorBuilder ''b'') (\<lambda>b. SB_id b ''a'') = Inl (Error err1)"
    by (simp add: SB_class_def SB_id_def SB_constructor_sorted cssSelectorBuilder_def try_bind_def)
qed (rule SB_constructor_err1_iff SB_constructor_ok_iff SB_class_err1_iff SB_attr_err1_iff
    SB_pseudoClass_err1_iff SB_element_err1_iff SB_id_err1_iff SB_pseudoElement_err1_iff)+

theorem ordering_error_iff_out_of_order_witness:
  "SB_constructor [(K_class, ''.b''), (K_id, ''#a'')] True = Inl (Error err1)
   \<and> SB_constructor [(K_id, ''#a''), (K_class, ''.b'')] True = Inr \<lparr>a = [(K_id, ''#a''), (K_class, ''.b'')]\<rparr>"
proof -
  have bad: "out_of_order [(K_class, ''.b''), (K_id, ''#a'')]"
    by (rule exI [of _ 0]) simp
  have good: "\<not> out_of_order [(K_id, ''#a''), (K_class, ''.b'')]"
    by simp
  note thm1 = ordering_error_iff_out_of_order [of "[(K_class, ''.b''), (K_id, ''#a'')]"]
  note thm2 = ordering_error_iff_out_of_order [of "[(K_id, ''#a''), (K_class, ''.b'')]"]
  from thm1 [THEN conjunct1, THEN iffD2, OF bad]
    thm2 [THEN conjunct2, THEN conjunct1, THEN iffD2, OF good]
  show ?thesis ..
qed

text \<open>
  Claim C6. Over the store of arrays, each of the six fragment-adding methods and
  \<open>combine\<close>, called on a receiver \<open>B\<close> whose array is allocated, leaves the receiver's
  array as it was, whether the call returns or throws: every array that was in the store is
  unchanged, and a builder that is returned holds a newly allocated array.
\<close>

theorem methods_leave_receiver_unchanged:
  assumes "a_ref B < length st"
  shows "receiver_unchanged st B (SB_element_st st B s)
    \<and> receiver_unchanged st B (SB_id_st st B s)
    \<and> receiver_unchanged st B (SB_class_st st B s)
    \<and> receiver_unchanged st B (SB_attr_st st B s)
    \<and> receiver_unchanged st B (SB_pseudoClass_st st B s)
    \<and> receiver_unchanged st B (SB_pseudoElement_st st B s)
    \<and> receiver_unchanged st B (SB_combine_st st B s1 c s2)"
  unfolding SB_element_st_def SB_id_st_def SB_class_st_def SB_attr_st_def SB_pseudoClass_st_def
    SB_pseudoElement_st_def
  by (intro conjI guarded_st_unchanged [OF assms] receiver_unchanged_append_fragment [OF assms]
      receiver_unchanged_combine [OF assms])

theorem methods_leave_receiver_unchanged_witness:
  "a_ref \<lparr>a_ref = 1\<rparr> < length [[], [(K_class, ''.x'')]]
   \<and> receiver_unchanged [[], [(K_class, ''.x'')]] \<lparr>a_ref = 1\<rparr>
        (SB_id_st [[], [(K_class, ''.x'')]] \<lparr>a_ref = 1\<rparr> ''y'')
   \<and> SB_id_st [[], [(K_class, ''.x'')]] \<lparr>a_ref = 1\<rparr> ''y''
        = (Inl (Error err1), [[], [(K_class, ''.x'')], [(K_id, ''#y'')], [(K_class, ''.x''), (K_id, ''#y'')]])
   \<and> receiver_unchanged [[], [(K_class, ''.x'')]] \<lparr>a_ref = 1\<rparr>
        (SB_class_st [[], [(K_class, ''.x'')]] \<lparr>a_ref = 1\<rparr> ''z'')
   \<and> SB_class_st [[], [(K_class, ''.x'')]] \<lparr>a_ref = 1\<rparr> ''z''
        = (Inr \<lparr>a_ref = 3\<rparr>, [[], [(K_class, ''.x'')], [(K_class, ''.z'')], [(K_class, ''.x''), (K_class, ''.z'')]])"
proof -
  have valid: "a_ref \<lparr>a_ref = 1\<rparr> < length [[], [(K_class, ''.x'')]]"
    by simp
  have id_out: "SB_id_st [[], [(K_class, ''.x'')]] \<lparr>a_ref = 1\<rparr> ''y''
        = (Inl (Error err1), [[], [(K_class, ''.x'')], [(K_id, ''#y'')], [(K_class, ''.x''), (K_id, ''#y'')]])"
    by (simp add: SB_id_st_def append_fragment_st_eq SB_constructor_sorted)
  have class_out: "SB_class_st [[], [(K_class, ''.x'')]] \<lparr>a_ref = 1\<rparr> ''z''
        = (Inr \<lparr>a_ref = 3\<rparr>, [[], [(K_class, ''.x'')], [(K_class, ''.z'')], [(K_class, ''.x''), (K_class, ''.z'')]])"
    by (simp add: SB_class_st_def append_fragment_st_eq SB_constructor_sorted)
  from methods_leave_receiver_unchanged [OF valid] valid id_out class_out
  show ?thesis by blast
qed

text \<open>
  Claim C4. For every builder \<open>B\<close>, \<open>element\<close>, \<open>id\<close> and \<open>pseudoElement\<close> throw the
  duplicate error (message \<open>err2\<close>) if and only if \<open>B\<close> already has a fragment of that
  kind. Over the store the error comes before anything is allocated: the outcome is the
  error with the store as it was, exactly in that case. \<^verbatim>\<open>id('a').id('b')\<close> throws the
  error, and after catching it the builder that \<^verbatim>\<open>id('a')\<close> returned still answers
  \<^verbatim>\<open>class('c').stringify()\<close> with \<^verbatim>\<open>'#a.c'\<close>.
\<close>

theorem duplicate_error_iff_present:
  "(SB_element B s = Inl (Error err2)) = list_ex (\<lambda>e. fst e = K_element) (a B)
   \<and> (SB_id B s = Inl (Error err2)) = list_ex (\<lambda>e. fst e = K_id) (a B)
   \<and> (SB_pseudoElement B s = Inl (Error err2)) = list_ex (\<lambda>e. fst e = K_pseudoElement) (a B)
   \<and> (SB_element_st st R s = (Inl (Error err2), st))
       = list_ex (\<lambda>e. fst e = K_element) (st ! a_ref R)
   \<and> (SB_id_st st R s = (Inl (Error err2), st))
       = list_ex (\<lambda>e. fst e = K_id) (st ! a_ref R)
   \<and> (SB_pseudoElement_st st R s = (Inl (Error err2), st))
       = list_ex (\<lambda>e. fst e = K_pseudoElement) (st ! a_ref R)
   \<and> try_bind (SB_id cssSelectorBuilder ''a'') (\<lambda>b1. SB_id b1 ''b'') = Inl (Error err2)
   \<and> try_bind (SB_id cssSelectorBuilder ''a'') (\<lambda>b1.
        case SB_id b1 ''b'' of
          Inl e \<Rightarrow> try_bind (SB_class b1 ''c'') (\<lambda>b2. Inr (SB_stringify b2))
        | Inr b2 \<Rightarrow> Inr (SB_stringify b2)) = Inr ''#a.c''"
proof (intro conjI)
  show "(SB_element B s = Inl (Error err2)) = list_ex (\<lambda>e. fst e = K_element) (a B)"
    unfolding SB_element_def by (rule guarded_err2_iff)
  show "(SB_id B s = Inl (Error err2)) = list_ex (\<lambda>e. fst e = K_id) (a B)"
    unfolding SB_id_def by (rule guarded_err2_iff)
  show "(SB_pseudoElement B s = Inl (Error err2)) = list_ex (\<lambda>e. fst e = K_pseudoElement) (a B)"
    unfolding SB_pseudoElement_def by (rule guarded_err2_iff)
  show "(SB_element_st st R s = (Inl (Error err2), st))
       = list_ex (\<lambda>e. fst e = K_element) (st ! a_ref R)"
    unfolding SB_element_st_def by (rule guarded_st_err2_iff)
  show "(SB_id_st st R s = (Inl (Error err2), st))
       = list_ex (\<lambda>e. fst e = K_id) (st ! a_ref R)"
    unfolding SB_id_st_def by (rule guarded_st_err2_iff)
  show "(SB_pseudoElement_st st R s = (Inl (Error err2), st))
       = list_ex (\<lambda>e. fst e = K_pseudoElement) (st ! a_ref R)"
    unfolding SB_pseudoElement_st_def by (rule guarded_st_err2_iff)
  show "try_bind (SB_id cssSelectorBuilder ''a'') (\<lambda>b1. SB_id b1 ''b'') = Inl (Error err2)"
    by (simp add: SB_id_def SB_constructor_sorted cssSelectorBuilder_def try_bind_def)
  show "try_bind (SB_id cssSelectorBuilder ''a'') (\<lambda>b1.
        case SB_id b1 ''b'' of
          Inl e \<Rightarrow> try_bind (SB_class b1 ''c'') (\<lambda>b2. Inr (SB_stringify b2))
        | Inr b2 \<Rightarrow> Inr (SB_stringify b2)) = Inr ''#a.c''"
    by (simp add: SB_id_def SB_class_def SB_constructor_sorted cssSelectorBuilder_def try_bind_def
        SB_stringify_concat)
qed

theorem duplicate_error_iff_present_witness:
  "SB_id \<lparr>a = [(K_id, ''#a'')]\<rparr> ''b'' = Inl (Error err2)
   \<and> SB_id_st [[(K_id, ''#a'')]] \<lparr>a_ref = 0\<rparr> ''b'' = (Inl (Error err2), [[(K_id, ''#a'')]])
   \<and> SB_element \<lparr>a = [(K_id, ''#a'')]\<rparr> ''b'' \<noteq> Inl (Error err2)"
proof -
  note thm1 = duplicate_error_iff_present [of "\<lparr>a = [(K_id, ''#a'')]\<rparr>" "''b''" "[[(K_id, ''#a'')]]" "\<lparr>a_ref = 0\<rparr>"]
  have dup: "list_ex (\<lambda>e. fst e = K_id) (a \<lparr>a = [(K_id, ''#a'')]\<rparr>)"
    by simp
  have dup_st: "list_ex (\<lambda>e. fst e = K_id) ([[(K_id, ''#a'')]] ! a_ref \<lparr>a_ref = 0\<rparr>)"
    by simp
  have nodup: "\<not> list_ex (\<lambda>e. fst e = K_element) (a \<lparr>a = [(K_id, ''#a'')]\<rparr>)"
    by simp
  from thm1 dup dup_st nodup show ?thesis by blast
qed

text \<open>
  Claim C5. \<open>stringify\<close> returns the concatenation, in order and with nothing between
  them, of the texts of the builder's fragments. Every fragment-adding call either throws
  one of the two errors or returns the builder with one more fragment, whose text is the
  documented rendering of the call: \<open>element(v)\<close> gives \<open>v\<close>, \<open>id(v)\<close> gives \<open>#v\<close>,
  \<open>class(v)\<close> gives \<open>.v\<close>, \<open>attr(v)\<close> gives \<open>[v]\<close>, \<open>pseudoClass(v)\<close> gives \<open>:v\<close> and
  \<open>pseudoElement(v)\<close> gives \<open>::v\<close>; on the empty builder each of the six returns, for
  every \<open>v\<close>. So the string of a chain of calls from the empty builder is the concatenation
  of the renderings of the calls, and the string of a combined builder is the strings of
  the receiver and the left builder, the token between two spaces and the string of the
  right builder. \<^verbatim>\<open>id('main').class('container').class('editable').stringify()\<close> is
  \<^verbatim>\<open>'#main.container.editable'\<close> and
  \<^verbatim>\<open>element('a').attr('href$=".png"').pseudoClass('focus').stringify()\<close> is
  \<^verbatim>\<open>'a[href$=".png"]:focus'\<close>. Over the store \<open>stringify\<close> is pure and idempotent: it
  returns the string of the receiver's fragments, leaves the store of fragment arrays as it
  was and every existing array of strings unchanged, returns the same string when it is
  called again, and returns the same string after any call that leaves the receiver's
  array unchanged.
\<close>

theorem stringify_concatenates_renderings:
  \<open>SB_stringify B = concat (map snd (a B))
   \<and> (\<forall>B'. apply_call B k = Inr B' \<longrightarrow>
         a B' = a B @ [(spec_kind k, spec_render k)]
         \<and> SB_stringify B' = SB_stringify B @ spec_render k)
   \<and> (\<forall>B'. run cssSelectorBuilder cs = Inr B' \<longrightarrow> SB_stringify B' = concat (map spec_render cs))
   \<and> (\<forall>C. SB_combine B s1 c s2 = Inr C \<longrightarrow>
         SB_stringify C = SB_stringify B @ SB_stringify s1 @ '' '' @ c @ '' '' @ SB_stringify s2)
   \<and> try_bind (SB_id cssSelectorBuilder ''main'') (\<lambda>b1.
       try_bind (SB_class b1 ''container'') (\<lambda>b2.
       try_bind (SB_class b2 ''editable'') (\<lambda>b3.
       Inr (SB_stringify b3)))) = Inr ''#main.container.editable''
   \<and> apply_call B k =
       (if singleton_kind (spec_kind k) \<and> list_ex (\<lambda>e. fst e = spec_kind k) (a B)
        then Inl (Error err2)
        else if out_of_order (a B @ [(spec_kind k, spec_render k)]) then Inl (Error err1)
        else Inr \<lparr>a = a B @ [(spec_kind k, spec_render k)]\<rparr>)
   \<and> try_bind (SB_element cssSelectorBuilder v) (\<lambda>b. Inr (SB_stringify b)) = Inr v
   \<and> try_bind (SB_id cssSelectorBuilder v) (\<lambda>b. Inr (SB_stringify b)) = Inr (''#'' @ v)
   \<and> try_bind (SB_class cssSelectorBuilder v) (\<lambda>b. Inr (SB_stringify b)) = Inr (''.'' @ v)
   \<and> try_bind (SB_attr cssSelectorBuilder v) (\<lambda>b. Inr (SB_stringify b)) = Inr (''['' @ v @ '']'')
   \<and> try_bind (SB_pseudoClass cssSelectorBuilder v) (\<lambda>b. Inr (SB_stringify b)) = Inr ('':'' @ v)
   \<and> try_bind (SB_pseudoElement cssSelectorBuilder v) (\<lambda>b. Inr (SB_stringify b)) = Inr (''::'' @ v)
   \<and> try_bind (SB_element cssSelectorBuilder ''a'') (\<lambda>b1.
       try_bind (SB_attr b1 ''href$=".png"'') (\<lambda>b2.
       try_bind (SB_pseudoClass b2 ''focus'') (\<lambda>b3.
       Inr (SB_stringify b3)))) = Inr ''a[href$=".png"]:focus''
   \<and> try_bind (SB_element cssSelectorBuilder ''div'') (\<lambda>b1.
       try_bind (SB_id b1 ''main'') (\<lambda>b2.
       try_bind (SB_class b2 ''c'') (\<lambda>b3.
       try_bind (SB_attr b3 ''x'') (\<lambda>b4.
       try_bind (SB_pseudoClass b4 ''hover'') (\<lambda>b5.
       try_bind (SB_pseudoElement b5 ''after'') (\<lambda>b6.
       Inr (SB_stringify b6))))))) = Inr ''div#main.c[x]:hover::after''
   \<and> fst (SB_stringify_st st ts R) = SB_stringify (SB_at st R)
   \<and> fst (snd (SB_stringify_st st ts R)) = st
   \<and> take (length ts) (snd (snd (SB_stringify_st st ts R))) = ts
   \<and> fst (SB_stringify_st (fst (snd (SB_stringify_st st ts R))) (snd (snd (SB_stringify_st st ts R))) R)
       = fst (SB_stringify_st st ts R)
   \<and> (\<forall>out. receiver_unchanged st R out \<longrightarrow>
         fst (SB_stringify_st (snd out) ts R) = fst (SB_stringify_st st ts R))\<close>
proof (intro conjI allI impI)
  show "SB_stringify B = concat (map snd (a B))"
    by (rule SB_stringify_concat)
  show "a B' = a B @ [(spec_kind k, spec_render k)]" if "apply_call B k = Inr B'" for B'
    using that by (rule apply_call_Inr(1))
  show "SB_stringify B' = SB_stringify B @ spec_render k" if "apply_call B k = Inr B'" for B'
    using that by (rule apply_call_stringify)
  show "SB_stringify B' = concat (map spec_render cs)" if "run cssSelectorBuilder cs = Inr B'" for B'
    using run_stringify [OF that] by (simp add: SB_stringify_concat cssSelectorBuilder_def)
  show "SB_stringify C = SB_stringify B @ SB_stringify s1 @ '' '' @ c @ '' '' @ SB_stringify s2"
    if "SB_combine B s1 c s2 = Inr C" for C
    using that by (rule SB_combine_stringify)
  show "try_bind (SB_id cssSelectorBuilder ''main'') (\<lambda>b1.
       try_bind (SB_class b1 ''container'') (\<lambda>b2.
       try_bind (SB_class b2 ''editable'') (\<lambda>b3.
       Inr (SB_stringify b3)))) = Inr ''#main.container.editable''"
    by (simp add: SB_id_def SB_class_def SB_constructor_sorted cssSelectorBuilder_def try_bind_def
        SB_stringify_concat)
  show "apply_call B k =
       (if singleton_kind (spec_kind k) \<and> list_ex (\<lambda>e. fst e = spec_kind k) (a B)
        then Inl (Error err2)
        else if out_of_order (a B @ [(spec_kind k, spec_render k)]) then Inl (Error err1)
        else Inr \<lparr>a = a B @ [(spec_kind k, spec_render k)]\<rparr>)"
    by (rule apply_call_outcome)
  show "try_bind (SB_element cssSelectorBuilder v) (\<lambda>b. Inr (SB_stringify b)) = Inr v"
    by (simp add: method_on_empty try_bind_def SB_stringify_concat)
  show "try_bind (SB_id cssSelectorBuilder v) (\<lambda>b. Inr (SB_stringify b)) = Inr (''#'' @ v)"
    by (simp add: method_on_empty try_bind_def SB_stringify_concat)
  show "try_bind (SB_class cssSelectorBuilder v) (\<lambda>b. Inr (SB_stringify b)) = Inr (''.'' @ v)"
    by (simp add: method_on_empty try_bind_def SB_stringify_concat)
  show "try_bind (SB_attr cssSelectorBuilder v) (\<lambda>b. Inr (SB_stringify b)) = Inr (''['' @ v @ '']'')"
    by (simp add: method_on_empty try_bind_def SB_stringify_concat)
  show "try_bind (SB_pseudoClass cssSelectorBuilder v) (\<lambda>b. Inr (SB_stringify b)) = Inr ('':'' @ v)"
    by (simp add: method_on_empty try_bind_def SB_stringify_concat)
  show "try_bind (SB_pseudoElement cssSelectorBuilder v) (\<lambda>b. Inr (SB_stringify b)) = Inr (''::'' @ v)"
    by (simp add: method_on_empty try_bind_def SB_stringify_concat)
  show \<open>try_bind (SB_element cssSelectorBuilder ''a'') (\<lambda>b1.
       try_bind (SB_attr b1 ''href$=".png"'') (\<lambda>b2.
       try_bind (SB_pseudoClass b2 ''focus'') (\<lambda>b3.
       Inr (SB_stringify b3)))) = Inr ''a[href$=".png"]:focus''\<close>
    by (simp add: SB_element_def SB_attr_def SB_pseudoClass_def SB_constructor_sorted
        cssSelectorBuilder_def try_bind_def SB_stringify_concat)
  show "try_bind (SB_element cssSelectorBuilder ''div'') (\<lambda>b1.
       try_bind (SB_id b1 ''main'') (\<lambda>b2.
       try_bind (SB_class b2 ''c'') (\<lambda>b3.
       try_bind (SB_attr b3 ''x'') (\<lambda>b4.
       try_bind (SB_pseudoClass b4 ''hover'') (\<lambda>b5.
       try_bind (SB_pseudoElement b5 ''after'') (\<lambda>b6.
       Inr (SB_stringify b6))))))) = Inr ''div#main.c[x]:hover::after''"
    by (simp add: SB_element_def SB_id_def SB_class_def SB_attr_def SB_pseudoClass_def
        SB_pseudoElement_def SB_constructor_sorted cssSelectorBuilder_def try_bind_def
        SB_stringify_concat)
  show "fst (SB_stringify_st st ts R) = SB_stringify (SB_at st R)"
    by (simp add: SB_stringify_st_result)
  show "fst (snd (SB_stringify_st st ts R)) = st"
    by (simp add: SB_stringify_st_result)
  show "take (length ts) (snd (snd (SB_stringify_st st ts R))) = ts"
    by (simp add: SB_stringify_st_result)
  show "fst (SB_stringify_st (fst (snd (SB_stringify_st st ts R))) (snd (snd (SB_stringify_st st ts R))) R)
       = fst (SB_stringify_st st ts R)"
    by (simp add: SB_stringify_st_result)
  show "fst (SB_stringify_st (snd out) ts R) = fst (SB_stringify_st st ts R)"
    if "receiver_unchanged st R out" for out
    using that by (rule receiver_unchanged_stringify)
qed

theorem stringify_concatenates_renderings_witness:
  "run cssSelectorBuilder [CallId ''main'', CallClass ''container'', CallClass ''editable'']
     = Inr \<lparr>a = [(K_id, ''#main''), (K_class, ''.container''), (K_class, ''.editable'')]\<rparr>
   \<and> SB_stringify \<lparr>a = [(K_id, ''#main''), (K_class, ''.container''), (K_class, ''.editable'')]\<rparr>
     = ''#main.container.editable''
   \<and> apply_call \<lparr>a = [(K_id, ''#main'')]\<rparr> (CallAttr ''x'') = Inr \<lparr>a = [(K_id, ''#main''), (K_attr, ''[x]'')]\<rparr>
   \<and> SB_stringify \<lparr>a = [(K_id, ''#main''), (K_attr, ''[x]'')]\<rparr> = ''#main[x]''
   \<and> SB_combine \<lparr>a = [(K_element, ''x'')]\<rparr> \<lparr>a = [(K_id, ''#main'')]\<rparr> ''>'' \<lparr>a = [(K_class, ''.c'')]\<rparr>
     = Inr \<lparr>a = [(K_element, ''x''), (K_id, ''#main''), (K_element, '' > ''), (K_class, ''.c'')]\<rparr>
   \<and> SB_stringify \<lparr>a = [(K_element, ''x''), (K_id, ''#main''), (K_element, '' > ''), (K_class, ''.c'')]\<rparr>
     = ''x#main > .c''
   \<and> receiver_unchanged [[(K_id, ''#main'')]] \<lparr>a_ref = 0\<rparr>
        (SB_class_st [[(K_id, ''#main'')]] \<lparr>a_ref = 0\<rparr> ''c'')
   \<and> fst (SB_stringify_st (snd (SB_class_st [[(K_id, ''#main'')]] \<lparr>a_ref = 0\<rparr> ''c'')) [] \<lparr>a_ref = 0\<rparr>)
     = ''#main''
   \<and> fst (SB_stringify_st [[(K_id, ''#main'')]] [] \<lparr>a_ref = 0\<rparr>) = ''#main''"
proof -
  have r: "run cssSelectorBuilder [CallId ''main'', CallClass ''container'', CallClass ''editable'']
     = Inr \<lparr>a = [(K_id, ''#main''), (K_class, ''.container''), (K_class, ''.editable'')]\<rparr>"
    by (simp add: apply_call_result SB_constructor_sorted cssSelectorBuilder_def try_bind_def)
  have c: "apply_call \<lparr>a = [(K_id, ''#main'')]\<rparr> (CallAttr ''x'') = Inr \<lparr>a = [(K_id, ''#main''), (K_attr, ''[x]'')]\<rparr>"
    by (simp add: apply_call_result SB_constructor_sorted)
  have m: "SB_combine \<lparr>a = [(K_element, ''x'')]\<rparr> \<lparr>a = [(K_id, ''#main'')]\<rparr> ''>'' \<lparr>a = [(K_class, ''.c'')]\<rparr>
     = Inr \<lparr>a = [(K_element, ''x''), (K_id, ''#main''), (K_element, '' > ''), (K_class, ''.c'')]\<rparr>"
    by (simp add: SB_combine_frags)
  have u: "receiver_unchanged [[(K_id, ''#main'')]] \<lparr>a_ref = 0\<rparr>
        (SB_class_st [[(K_id, ''#main'')]] \<lparr>a_ref = 0\<rparr> ''c'')"
    unfolding SB_class_st_def by (rule receiver_unchanged_append_fragment) simp
  note thm1 = stringify_concatenates_renderings
    [of "\<lparr>a = [(K_id, ''#main'')]\<rparr>" "CallAttr ''x''"
      "[CallId ''main'', CallClass ''container'', CallClass ''editable'']"]
  note thm2 = stringify_concatenates_renderings
    [of "\<lparr>a = [(K_element, ''x'')]\<rparr>" _ _ "\<lparr>a = [(K_id, ''#main'')]\<rparr>" "''>''" "\<lparr>a = [(K_class, ''.c'')]\<rparr>"]
  note thm3 = stringify_concatenates_renderings
    [where st = "[[(K_id, ''#main'')]]" and ts = "[]" and R = "\<lparr>a_ref = 0\<rparr>"]
  from thm1 r have 1: "SB_stringify \<lparr>a = [(K_id, ''#main''), (K_class, ''.container''), (K_class, ''.editable'')]\<rparr>
     = ''#main.container.editable''"
    by simp
  from thm1 c have 2: "SB_stringify \<lparr>a = [(K_id, ''#main''), (K_attr, ''[x]'')]\<rparr> = ''#main[x]''"
    by (simp add: SB_stringify_concat)
  from thm2 m have 3: "SB_stringify \<lparr>a = [(K_element, ''x''), (K_id, ''#main''), (K_element, '' > ''), (K_class, ''.c'')]\<rparr>
     = ''x#main > .c''"
    by (simp add: SB_stringify_concat)
  have 5: "fst (SB_stringify_st [[(K_id, ''#main'')]] [] \<lparr>a_ref = 0\<rparr>) = ''#main''"
    by (simp add: SB_stringify_st_result SB_stringify_concat SB_at_def)
  note tail = thm3 [THEN conjunct2, THEN conjunct2, THEN conjunct2, THEN conjunct2, THEN conjunct2, THEN conjunct2, THEN conjunct2, THEN conjunct2, THEN conjunct2, THEN conjunct2, THEN conjunct2, THEN conjunct2, THEN conjunct2, THEN conjunct2, THEN conjunct2, THEN conjunct2, THEN conjunct2, THEN conjunct2]
  from tail
  have after: "\<forall>out. receiver_unchanged [[(K_id, ''#main'')]] \<lparr>a_ref = 0\<rparr> out \<longrightarrow>
      fst (SB_stringify_st (snd out) [] \<lparr>a_ref = 0\<rparr>)
        = fst (SB_stringify_st [[(K_id, ''#main'')]] [] \<lparr>a_ref = 0\<rparr>)"
    .
  from after [rule_format, OF u] 5
  have 4: "fst (SB_stringify_st (snd (SB_class_st [[(K_id, ''#main'')]] \<lparr>a_ref = 0\<rparr> ''c'')) [] \<lparr>a_ref = 0\<rparr>)
     = ''#main''"
    by simp
  from r 1 c 2 m 3 u 4 5 show ?thesis by blast
qed

text \<open>
  Claim C7. A builder that \<open>combine\<close> returned was accepted without validation, but a
  fragment-adding call on it runs the validating constructor on its whole sequence followed
  by the new fragment: the call throws the ordering error exactly when it reaches the
  constructor (no duplicate of a singleton kind) and that whole sequence has a consecutive
  pair out of rank order. \<^verbatim>\<open>combine(element('a'), '+', pseudoClass('x'))\<close> succeeds and
  \<^verbatim>\<open>.class('y')\<close> on it throws the ordering error, pseudoClass (4) standing before class (2).
\<close>

theorem append_to_combined_revalidates:
  assumes "SB_combine this s1 c s2 = Inr C"
  shows "(apply_call C k = Inl (Error err1)) =
           (\<not> (singleton_kind (spec_kind k) \<and> list_ex (\<lambda>e. fst e = spec_kind k) (a C))
            \<and> out_of_order (a this @ a s1 @ [(K_element, '' '' @ c @ '' '')] @ a s2
                 @ [(spec_kind k, spec_render k)]))
    \<and> (SB_class C s = Inl (Error err1)) =
           out_of_order (a this @ a s1 @ [(K_element, '' '' @ c @ '' '')] @ a s2
                 @ [(K_class, ''.'' @ s)])
    \<and> try_bind (SB_element cssSelectorBuilder ''a'') (\<lambda>L.
       try_bind (SB_pseudoClass cssSelectorBuilder ''x'') (\<lambda>R.
       try_bind (SB_combine cssSelectorBuilder L ''+'' R) (\<lambda>C'.
       Inr (a C', SB_class C' ''y''))))
      = Inr ([(K_element, ''a''), (K_element, '' + ''), (K_pseudoClass, '':x'')], Inl (Error err1))"
proof (intro conjI)
  from assms have frags: "a C = a this @ a s1 @ [(K_element, '' '' @ c @ '' '')] @ a s2"
    by (auto simp add: SB_combine_frags)
  show "(apply_call C k = Inl (Error err1)) =
           (\<not> (singleton_kind (spec_kind k) \<and> list_ex (\<lambda>e. fst e = spec_kind k) (a C))
            \<and> out_of_order (a this @ a s1 @ [(K_element, '' '' @ c @ '' '')] @ a s2
                 @ [(spec_kind k, spec_render k)]))"
    using apply_call_err1_iff [of C k] by (simp only: frags append_assoc)
  show "(SB_class C s = Inl (Error err1)) =
           out_of_order (a this @ a s1 @ [(K_element, '' '' @ c @ '' '')] @ a s2
                 @ [(K_class, ''.'' @ s)])"
    using SB_class_err1_iff [of C s] by (simp only: frags append_assoc)
  show "try_bind (SB_element cssSelectorBuilder ''a'') (\<lambda>L.
       try_bind (SB_pseudoClass cssSelectorBuilder ''x'') (\<lambda>R.
       try_bind (SB_combine cssSelectorBuilder L ''+'' R) (\<lambda>C'.
       Inr (a C', SB_class C' ''y''))))
      = Inr ([(K_element, ''a''), (K_element, '' + ''), (K_pseudoClass, '':x'')], Inl (Error err1))"
    by (simp add: SB_element_def SB_pseudoClass_def SB_class_def SB_constructor_sorted
        SB_combine_frags cssSelectorBuilder_def try_bind_def)
qed

theorem append_to_combined_revalidates_witness:
  "SB_combine cssSelectorBuilder \<lparr>a = [(K_element, ''a'')]\<rparr> ''+'' \<lparr>a = [(K_pseudoClass, '':x'')]\<rparr>
     = Inr \<lparr>a = [(K_element, ''a''), (K_element, '' + ''), (K_pseudoClass, '':x'')]\<rparr>
   \<and> SB_class \<lparr>a = [(K_element, ''a''), (K_element, '' + ''), (K_pseudoClass, '':x'')]\<rparr> ''y''
     = Inl (Error err1)"
proof -
  have comb: "SB_combine cssSelectorBuilder \<lparr>a = [(K_element, ''a'')]\<rparr> ''+'' \<lparr>a = [(K_pseudoClass, '':x'')]\<rparr>
     = Inr \<lparr>a = [(K_element, ''a''), (K_element, '' + ''), (K_pseudoClass, '':x'')]\<rparr>"
    by (simp add: SB_combine_frags cssSelectorBuilder_def)
  have bad: "out_of_order (a cssSelectorBuilder @ a \<lparr>a = [(K_element, ''a'')]\<rparr>
      @ [(K_element, '' '' @ ''+'' @ '' '')] @ a \<lparr>a = [(K_pseudoClass, '':x'')]\<rparr> @ [(K_class, ''.'' @ ''y'')])"
    by (rule exI [of _ 2]) (simp add: cssSelectorBuilder_def)
  from append_to_combined_revalidates [OF comb, THEN conjunct2, THEN conjunct1, THEN iffD2, OF bad]
    comb
  show ?thesis by simp
qed



text \<open>
  Claim C9. For all \<open>w\<close> and \<open>h\<close> the object that \<open>Rectangle\<close> makes has \<open>width\<close> equal to
  \<open>w\<close> and \<open>height\<close> equal to \<open>h\<close>, and \<open>getArea\<close> returns the product of the fields as
  they are when it is called: after an assignment to \<open>width\<close> the next call returns the
  product with the new width. \<^verbatim>\<open>new Rectangle(10, 20).getArea()\<close> is 200.
\<close>

theorem Rectangle_getArea_current_fields:
  "width (Rectangle w h) = w
   \<and> height (Rectangle w h) = h
   \<and> getArea (Rectangle w h) = w * h
   \<and> getArea ((Rectangle w h)\<lparr>width := w'\<rparr>) = w' * h
   \<and> getArea (r\<lparr>width := w'\<rparr>) = w' * height r
   \<and> getArea (r\<lparr>height := h'\<rparr>) = width r * h'
   \<and> getArea (Rectangle (10 :: int) 20) = 200
   \<and> getArea ((Rectangle (10 :: int) 20)\<lparr>width := 3\<rparr>) = 60"
  by (simp add: Rectangle_def getArea_def)

theorem Rectangle_getArea_current_fields_witness:
  "getArea (Rectangle (7 :: int) 6) = 42 \<and> getArea ((Rectangle (7 :: int) 6)\<lparr>width := 2\<rparr>) = 12"
  using Rectangle_getArea_current_fields [of "7 :: int" 6 2] by simp




end
